theory Spec2Isabelle
  imports Complex_Main
begin

section \<open>Colormap Maker: the gradient, its sampling and its saved form\<close>

text \<open>
  The program is \<^verbatim>\<open>main.py\<close>: a window around a colormap widget, with the operations
  \<^verbatim>\<open>update_tables\<close>, \<^verbatim>\<open>save_colormap\<close>, \<^verbatim>\<open>load_colormap\<close> and
  \<^verbatim>\<open>add_new_color_stop\<close>. Positions are Python floats; they are modelled as exact
  rationals, so the rounding of float arithmetic itself is not part of the model.
  A colour value (\<^verbatim>\<open>stop.rgb\<close>, \<^verbatim>\<open>color.rgb()\<close>) is a Python int holding
  \<^verbatim>\<open>0xAARRGGBB\<close>; it is modelled as a natural number.
\<close>

subsection \<open>Python values: exceptions, indexing, number formatting\<close>

datatype exn =
  OSError string
| ValueError string
| IndexError string
| TypeError string

fun str :: "exn \<Rightarrow> string" where
  "str (OSError m) = m"
| "str (ValueError m) = m"
| "str (IndexError m) = m"
| "str (TypeError m) = m"

text \<open>\<^verbatim>\<open>xs[i]\<close> for \<^verbatim>\<open>i >= 0\<close>, and \<^verbatim>\<open>xs[-1]\<close>: both raise on a list that is too short.\<close>

definition index :: "'a list \<Rightarrow> nat \<Rightarrow> exn + 'a" where
  "index xs i =
     (if i < length xs then Inr (xs ! i) else Inl (IndexError ''list index out of range''))"

definition index_last :: "'a list \<Rightarrow> exn + 'a" where
  "index_last xs =
     (if xs = [] then Inl (IndexError ''list index out of range'') else Inr (last xs))"

text \<open>\<^verbatim>\<open>r, g, b = xs\<close>: exactly three values, or ValueError.\<close>

fun unpack3 :: "'a list \<Rightarrow> exn + 'a \<times> 'a \<times> 'a" where
  "unpack3 [r, g, b] = Inr (r, g, b)"
| "unpack3 xs = Inl (ValueError ''wrong number of values to unpack (expected 3)'')"

text \<open>
  The number that \<^verbatim>\<open>f"{x:.nf}"\<close> prints: \<open>x\<close> rounded to \<open>n\<close> decimal places,
  an exact tie going to the even digit.
\<close>

definition round_half_even :: "rat \<Rightarrow> int" where
  "round_half_even x =
     (let f = \<lfloor>x\<rfloor>; d = x - of_int f
      in if d < 1 / 2 then f else if 1 / 2 < d then f + 1 else if even f then f else f + 1)"

definition fmt :: "nat \<Rightarrow> rat \<Rightarrow> rat" where
  "fmt n x = of_int (round_half_even (x * 10 ^ n)) / 10 ^ n"

subsection \<open>Colours\<close>

text \<open>
  Modelled from the spec: \<^verbatim>\<open>QColor\<close> is a class of the GUI toolkit, whose code is not in
  the repository. The spec's colour is an "RGB triple of 8-bit channels".
  \<^verbatim>\<open>QColor(rgb_int)\<close> reads the three channels of \<^verbatim>\<open>0xAARRGGBB\<close> and ignores the
  alpha byte; \<^verbatim>\<open>color.rgb()\<close> packs them again under an opaque alpha, as \<^verbatim>\<open>qRgb\<close>
  does with three channels.
\<close>

record QColor =
  red :: nat
  green :: nat
  blue :: nat

definition QColor_of_rgb :: "nat \<Rightarrow> QColor" where
  "QColor_of_rgb n =
     \<lparr>red = n div 65536 mod 256, green = n div 256 mod 256, blue = n mod 256\<rparr>"

definition QColor_rgb :: "QColor \<Rightarrow> nat" where
  "QColor_rgb c = 4278190080 + red c * 65536 + green c * 256 + blue c"

definition qRgb :: "nat \<Rightarrow> nat \<Rightarrow> nat \<Rightarrow> nat" where
  "qRgb r g b = 4278190080 + (r mod 256) * 65536 + (g mod 256) * 256 + b mod 256"

definition channel_of_float :: "rat \<Rightarrow> nat" where
  "channel_of_float x = nat (max 0 (min 255 (round (x * 255))))"

text \<open>
  Modelled from the spec: \<^verbatim>\<open>QColor.fromRgbF\<close> belongs to the GUI toolkit, whose code is
  not in the repository. The spec stores stop colours as "0-1 float triples" of "8-bit
  channels": a channel is the float scaled by 255, rounded and kept in \<open>[0, 255]\<close>.
\<close>

definition fromRgbF :: "rat \<Rightarrow> rat \<Rightarrow> rat \<Rightarrow> QColor" where
  "fromRgbF r g b =
     \<lparr>red = channel_of_float r, green = channel_of_float g, blue = channel_of_float b\<rparr>"

subsection \<open>The colormap object\<close>

record ColorStop =
  pos :: rat
  rgb :: nat

type_synonym colormap = "ColorStop list"

text \<open>
  Modelled from the spec: \<^verbatim>\<open>EditableColormap\<close> (a \<^verbatim>\<open>QwtLinearColorMap\<close>) comes from
  the plotting libraries, whose code is not in the repository. The spec's Gradient is "an
  ordered sequence of ColorStop (by position)", with "a stop at position 0.0 and one at
  position 1.0 (first/last)"; the constructor makes these two boundary stops from its two
  colours, and a stop with a position in \<open>[0, 1]\<close> is added where the order by position
  puts it (after the stops that are not greater). A position outside \<open>[0, 1]\<close> is not a
  position of the data model ("position: real in [0,1]"): such a stop is not added.
\<close>

definition EditableColormap :: "nat \<Rightarrow> nat \<Rightarrow> colormap" where
  "EditableColormap color1 color2 = [\<lparr>pos = 0, rgb = color1\<rparr>, \<lparr>pos = 1, rgb = color2\<rparr>]"

fun insert_stop :: "ColorStop \<Rightarrow> colormap \<Rightarrow> colormap" where
  "insert_stop s [] = [s]"
| "insert_stop s (x # xs) = (if pos s < pos x then s # x # xs else x # insert_stop s xs)"

definition addColorStop :: "rat \<Rightarrow> nat \<Rightarrow> colormap \<Rightarrow> colormap" where
  "addColorStop p c cm =
     (if 0 \<le> p \<and> p \<le> 1 then insert_stop \<lparr>pos = p, rgb = c\<rparr> cm else cm)"

text \<open>
  Modelled from the spec: the Gradient Sampler, \<^verbatim>\<open>colormap.rgb(QwtInterval(0, 1), p)\<close>
  in the code, is the library's too. The spec: \<open>p\<close> is clamped to \<open>[0, 1]\<close>; with
  \<open>lo\<close> and \<open>hi\<close> the adjacent stops around \<open>p\<close>, "if p equals a stop's position
  exactly, return that stop's color without interpolation. Otherwise compute
  t = (p - lo.position) / (hi.position - lo.position) and linearly interpolate each of the
  three color channels independently: channel = round(lo.channel + t * (hi.channel -
  lo.channel)), clamped to [0,255]"; a position below the first or above the last stop
  gets that boundary stop's colour. There is nothing to sample without a stop.
\<close>

definition lerp_channel :: "nat \<Rightarrow> nat \<Rightarrow> rat \<Rightarrow> nat" where
  "lerp_channel lo hi t =
     nat (max 0 (min 255 (round (of_nat lo + t * (of_nat hi - of_nat lo)))))"

definition interpolate :: "ColorStop \<Rightarrow> ColorStop \<Rightarrow> rat \<Rightarrow> nat" where
  "interpolate lo hi p =
     (let t = (p - pos lo) / (pos hi - pos lo);
          a = QColor_of_rgb (rgb lo);
          b = QColor_of_rgb (rgb hi)
      in qRgb (lerp_channel (red a) (red b) t)
              (lerp_channel (green a) (green b) t)
              (lerp_channel (blue a) (blue b) t))"

fun sample_from :: "ColorStop \<Rightarrow> colormap \<Rightarrow> rat \<Rightarrow> nat" where
  "sample_from lo [] p = rgb lo"
| "sample_from lo (hi # rest) p =
     (if p \<le> pos lo then rgb lo
      else if p < pos hi then interpolate lo hi p
      else sample_from hi rest p)"

definition GradientSampler :: "colormap \<Rightarrow> rat \<Rightarrow> nat option" where
  "GradientSampler cm p =
     (case cm of
        [] \<Rightarrow> None
      | lo # rest \<Rightarrow> Some (sample_from lo rest (max 0 (min 1 p))))"

text \<open>The Gradient invariant of the spec: at least the two boundary stops, at 0 and at 1,
  and positions strictly increasing (sorted and unique).\<close>

definition valid_gradient :: "colormap \<Rightarrow> bool" where
  "valid_gradient cm \<longleftrightarrow>
     2 \<le> length cm \<and> pos (hd cm) = 0 \<and> pos (last cm) = 1 \<and> sorted_wrt (<) (map pos cm)"

subsection \<open>The window and its tables\<close>

text \<open>
  A table row shows the index, the position printed with four decimals, and the colour.
  \<^verbatim>\<open>num_colors\<close> is the attribute the tests set on the window; \<^verbatim>\<open>__init__\<close> does not
  create it and no method of \<^verbatim>\<open>main.py\<close> reads it. \<open>dialogs\<close> collects the title and
  text of every \<^verbatim>\<open>QMessageBox.critical\<close> shown.
\<close>

record table_row =
  row_index :: nat
  row_position :: rat
  row_color :: QColor

record ColormapMakerApp =
  colormap :: colormap
  num_colors :: "nat option"
  stops_table :: "table_row list"
  rgb_preview :: "table_row list"
  dialogs :: "(string \<times> string) list"

text \<open>A method either returns or raises; the window is as the method left it.\<close>

datatype 'a outcome = Returned 'a | Raised exn 'a

definition stop_row :: "nat \<times> ColorStop \<Rightarrow> table_row" where
  "stop_row = (\<lambda>(i, stop).
     \<lparr>row_index = i, row_position = fmt 4 (pos stop), row_color = QColor_of_rgb (rgb stop)\<rparr>)"

definition preview_row :: "nat \<Rightarrow> nat \<times> nat \<Rightarrow> table_row" where
  "preview_row n_colors = (\<lambda>(i, rgb_int).
     \<lparr>row_index = i,
      row_position = fmt 4 (of_nat i / of_nat (n_colors - 1)),
      row_color = QColor_of_rgb rgb_int\<rparr>)"

text \<open>
  \<^verbatim>\<open>update_tables\<close>: one row per stop, then \<^verbatim>\<open>num_colors = 512\<close> rows sampled at
  \<^verbatim>\<open>i / (num_colors - 1)\<close> (the local variable is \<open>n_colors\<close> here, the window's
  attribute of the same name being a field of the record). If the sampler raises (no stop
  at all), it does so at the first sample: the stops table is already rewritten, the preview
  rows are not.
\<close>

definition update_tables :: "ColormapMakerApp \<Rightarrow> ColormapMakerApp outcome" where
  "update_tables self =
     (let stops = colormap self;
          self1 = self\<lparr>stops_table := map stop_row (enumerate 0 stops)\<rparr>;
          n_colors = 512
      in case those (map (\<lambda>i. GradientSampler (colormap self)
                               (of_nat i / of_nat (n_colors - 1))) [0..<n_colors]) of
           None \<Rightarrow> Raised (IndexError ''list index out of range'') self1
         | Some rgb_ints \<Rightarrow>
             Returned (self1\<lparr>rgb_preview :=
               map (preview_row n_colors) (enumerate 0 rgb_ints)\<rparr>))"

subsection \<open>Saving\<close>

text \<open>
  What \<^verbatim>\<open>save_colormap\<close> writes, piece by piece: the two literal lists, the body of
  \<^verbatim>\<open>create_colormap\<close> (two boundary colours and one \<^verbatim>\<open>addColorStop\<close> line per
  inner stop), the rows returned by \<^verbatim>\<open>get_rgb_array()\<close> and the numbers returned by
  \<^verbatim>\<open>get_positions()\<close>.
\<close>

record saved_file =
  written_color_positions :: "rat list"
  written_rgb_colors :: "(rat \<times> rat \<times> rat) list"
  color1_rgb :: nat
  color2_rgb :: nat
  addColorStop_lines :: "(rat \<times> nat) list"
  rgb_array_rows :: "(nat \<times> nat \<times> nat) list"
  positions_rows :: "rat list"

definition rgb_colors_line :: "ColorStop \<Rightarrow> rat \<times> rat \<times> rat" where
  "rgb_colors_line stop =
     (let color = QColor_of_rgb (rgb stop)
      in (fmt 6 (of_nat (red color) / 255),
          fmt 6 (of_nat (green color) / 255),
          fmt 6 (of_nat (blue color) / 255)))"

definition addColorStop_line :: "ColorStop \<Rightarrow> rat \<times> nat" where
  "addColorStop_line stop = (fmt 6 (pos stop), QColor_rgb (QColor_of_rgb (rgb stop)))"

definition rgb_array_row :: "nat \<Rightarrow> nat \<times> nat \<times> nat" where
  "rgb_array_row rgb_int =
     (let color = QColor_of_rgb rgb_int in (red color, green color, blue color))"

text \<open>\<^verbatim>\<open>for i in range(0, 512, 10): group = positions[i:i+10]\<close>, each printed with six
  decimals.\<close>

definition positions_groups :: "rat list \<Rightarrow> rat list" where
  "positions_groups positions =
     concat (map (\<lambda>k. map (fmt 6) (take 10 (drop (10 * k) positions))) [0..<52])"

text \<open>
  \<^verbatim>\<open>save_colormap\<close>, given the file name the dialog returned (empty when cancelled) and
  whether \<^verbatim>\<open>open(filename, 'w')\<close> raises. The method has no \<^verbatim>\<open>try\<close>: an exception
  leaves it. It writes 512 samples at \<^verbatim>\<open>i / 511\<close>. The window is not changed.
\<close>

definition save_colormap ::
  "ColormapMakerApp \<Rightarrow> string \<Rightarrow> exn option \<Rightarrow> exn + saved_file option" where
  "save_colormap self filename open_raises =
     (if filename = [] then Inr None
      else case open_raises of
        Some e \<Rightarrow> Inl e
      | None \<Rightarrow>
          (let stops = colormap self in
           case index stops 0 of
             Inl e \<Rightarrow> Inl e
           | Inr first_stop \<Rightarrow>
              (case index_last stops of
                 Inl e \<Rightarrow> Inl e
               | Inr last_stop \<Rightarrow>
                  (let positions = map (\<lambda>i. of_nat i / 511) [0..<512] in
                   case those (map (GradientSampler (colormap self)) positions) of
                     None \<Rightarrow> Inl (IndexError ''list index out of range'')
                   | Some rgb_ints \<Rightarrow>
                       Inr (Some
                         \<lparr>written_color_positions = map (\<lambda>stop. fmt 6 (pos stop)) stops,
                          written_rgb_colors = map rgb_colors_line stops,
                          color1_rgb = QColor_rgb (QColor_of_rgb (rgb first_stop)),
                          color2_rgb = QColor_rgb (QColor_of_rgb (rgb last_stop)),
                          addColorStop_lines = map addColorStop_line (butlast (tl stops)),
                          rgb_array_rows = map rgb_array_row rgb_ints,
                          positions_rows = positions_groups positions\<rparr>)))))"

subsection \<open>Loading\<close>

text \<open>
  A loaded module, as far as \<^verbatim>\<open>load_colormap\<close> and the tests look at it: an attribute is
  there or not. \<open>create_colormap\<close> holds what calling it gives (a colormap, or the
  exception it raises). An accessor written as \<^verbatim>\<open>def get_rgb_array():\<close> takes no
  argument: a call with one raises TypeError.
\<close>

datatype accessor = NoParameters "(nat \<times> nat \<times> nat) list"

fun call_accessor :: "accessor \<Rightarrow> nat option \<Rightarrow> exn + (nat \<times> nat \<times> nat) list" where
  "call_accessor (NoParameters rows) None = Inr rows"
| "call_accessor (NoParameters rows) (Some n) =
     Inl (TypeError ''get_rgb_array() takes 0 positional arguments but 1 was given'')"

record pymodule =
  create_colormap :: "(exn + colormap) option"
  color_positions :: "rat list option"
  rgb_colors :: "rat list list option"
  get_rgb_array :: "accessor option"
  get_positions :: "rat list option"

text \<open>Importing a file that \<^verbatim>\<open>save_colormap\<close> wrote: every name it defines, and
  \<^verbatim>\<open>create_colormap()\<close> running its body.\<close>

definition run_create_colormap :: "saved_file \<Rightarrow> colormap" where
  "run_create_colormap f =
     foldl (\<lambda>cm (p, c). addColorStop p c cm)
       (EditableColormap (color1_rgb f) (color2_rgb f)) (addColorStop_lines f)"

text \<open>One entry \<^verbatim>\<open>[r, g, b]\<close> of \<^verbatim>\<open>rgb_colors\<close>, and the colour value
  \<^verbatim>\<open>QColor.fromRgbF(r, g, b).rgb()\<close> it stands for.\<close>

definition entry_list :: "rat \<times> rat \<times> rat \<Rightarrow> rat list" where
  "entry_list = (\<lambda>(r, g, b). [r, g, b])"

fun entry_rgb :: "rat \<times> rat \<times> rat \<Rightarrow> nat" where
  "entry_rgb (r, g, b) = QColor_rgb (fromRgbF r g b)"

definition exec_module :: "saved_file \<Rightarrow> pymodule" where
  "exec_module f =
     \<lparr>create_colormap = Some (Inr (run_create_colormap f)),
      color_positions = Some (written_color_positions f),
      rgb_colors = Some (map entry_list (written_rgb_colors f)),
      get_rgb_array = Some (NoParameters (rgb_array_rows f)),
      get_positions = Some (positions_rows f)\<rparr>"

text \<open>\<^verbatim>\<open>QColor.fromRgbF(xs[0], xs[1], xs[2])\<close> on one entry of \<^verbatim>\<open>rgb_colors\<close>.\<close>

definition color_of_entry :: "rat list \<Rightarrow> exn + QColor" where
  "color_of_entry xs =
     (case index xs 0 of Inl e \<Rightarrow> Inl e | Inr r \<Rightarrow>
      case index xs 1 of Inl e \<Rightarrow> Inl e | Inr g \<Rightarrow>
      case index xs 2 of Inl e \<Rightarrow> Inl e | Inr b \<Rightarrow> Inr (fromRgbF r g b))"

text \<open>The loop \<^verbatim>\<open>for i in range(1, len(module.color_positions) - 1)\<close>, over its indices.\<close>

fun add_intermediate ::
  "rat list \<Rightarrow> rat list list \<Rightarrow> nat list \<Rightarrow> colormap \<Rightarrow> exn + colormap" where
  "add_intermediate ps cs [] cm = Inr cm"
| "add_intermediate ps cs (i # rest) cm =
     (case index ps i of Inl e \<Rightarrow> Inl e | Inr p \<Rightarrow>
      case index cs i of Inl e \<Rightarrow> Inl e | Inr entry \<Rightarrow>
      case unpack3 entry of Inl e \<Rightarrow> Inl e | Inr (r, g, b) \<Rightarrow>
        add_intermediate ps cs rest (addColorStop p (QColor_rgb (fromRgbF r g b)) cm))"

definition colormap_from_arrays :: "rat list \<Rightarrow> rat list list \<Rightarrow> exn + colormap" where
  "colormap_from_arrays ps cs =
     (case index cs 0 of Inl e \<Rightarrow> Inl e | Inr first_entry \<Rightarrow>
      case color_of_entry first_entry of Inl e \<Rightarrow> Inl e | Inr first_color \<Rightarrow>
      case index_last cs of Inl e \<Rightarrow> Inl e | Inr last_entry \<Rightarrow>
      case color_of_entry last_entry of Inl e \<Rightarrow> Inl e | Inr last_color \<Rightarrow>
        add_intermediate ps cs [1..<length ps - 1]
          (EditableColormap (QColor_rgb first_color) (QColor_rgb last_color)))"

text \<open>The body of the \<^verbatim>\<open>try\<close>, up to the colormap handed to \<^verbatim>\<open>set_colormap\<close>.\<close>

definition decode :: "pymodule \<Rightarrow> exn + colormap" where
  "decode mdl =
     (case create_colormap mdl of
        Some made \<Rightarrow> made
      | None \<Rightarrow>
         (case (color_positions mdl, rgb_colors mdl) of
            (Some ps, Some cs) \<Rightarrow> colormap_from_arrays ps cs
          | _ \<Rightarrow> Inl (ValueError ''File does not contain valid colormap data'')))"

definition critical :: "exn \<Rightarrow> string \<times> string" where
  "critical e = (''Error Loading Colormap'', ''Failed to load colormap from file:\<newline>'' @ str e)"

text \<open>
  \<^verbatim>\<open>load_colormap\<close>, given the file name the dialog returned and what importing the file
  gives (a module, or the exception of a file that cannot be read or run). Everything after
  the dialog is inside \<^verbatim>\<open>try ... except Exception\<close>.
\<close>

definition load_colormap ::
  "ColormapMakerApp \<Rightarrow> string \<Rightarrow> exn + pymodule \<Rightarrow> ColormapMakerApp" where
  "load_colormap self filename imported =
     (if filename = [] then self
      else case imported of
        Inl e \<Rightarrow> self\<lparr>dialogs := dialogs self @ [critical e]\<rparr>
      | Inr mdl \<Rightarrow>
         (case decode mdl of
            Inl e \<Rightarrow> self\<lparr>dialogs := dialogs self @ [critical e]\<rparr>
          | Inr cm \<Rightarrow>
             (case update_tables (self\<lparr>colormap := cm\<rparr>) of
                Returned self' \<Rightarrow> self'
              | Raised e self' \<Rightarrow> self'\<lparr>dialogs := dialogs self' @ [critical e]\<rparr>)))"

subsection \<open>Adding a stop\<close>

text \<open>
  \<^verbatim>\<open>add_new_color_stop\<close>, given what the dialog returned (nothing when rejected, else the
  spinner's position and the colour method) and what the colour picker returned (nothing
  when the colour is not valid). \<^verbatim>\<open>add_handle_at_relative_pos\<close> is the widget's method;
  the widget's code is not in the repository, so the method is a parameter.
  \<^verbatim>\<open>existing_positions\<close> is computed "to check if position is already occupied" and
  then never used.
\<close>

datatype color_method = ChooseColor | InterpolateFromColormap

definition add_new_color_stop ::
  "(rat \<Rightarrow> QColor \<Rightarrow> colormap \<Rightarrow> colormap) \<Rightarrow> ColormapMakerApp \<Rightarrow>
   (rat \<times> color_method) option \<Rightarrow> QColor option \<Rightarrow> ColormapMakerApp outcome" where
  "add_new_color_stop add_handle_at_relative_pos self accepted picked =
     (case accepted of
        None \<Rightarrow> Returned self
      | Some (position, method) \<Rightarrow>
         (let stops = colormap self;
              existing_positions = map pos stops;
              add = (\<lambda>color. update_tables
                (self\<lparr>colormap := add_handle_at_relative_pos position color (colormap self)\<rparr>))
          in case method of
               ChooseColor \<Rightarrow>
                 (case picked of None \<Rightarrow> Returned self | Some color \<Rightarrow> add color)
             | InterpolateFromColormap \<Rightarrow>
                 (case GradientSampler (colormap self) position of
                    None \<Rightarrow> Raised (IndexError ''list index out of range'') self
                  | Some color_int \<Rightarrow> add (QColor_of_rgb color_int))))"

subsection \<open>Auxiliary notions\<close>


text \<open>A stop with its colour as \<^verbatim>\<open>QColor(stop.rgb).rgb()\<close> gives it: the same channels, under
  an opaque alpha.\<close>

definition opaque_stop :: "ColorStop \<Rightarrow> ColorStop" where
  "opaque_stop s = s\<lparr>rgb := QColor_rgb (QColor_of_rgb (rgb s))\<rparr>"

text \<open>A stop as \<^verbatim>\<open>save_colormap\<close> writes it in an \<^verbatim>\<open>addColorStop\<close> line: the position
  with six decimals, the colour under an opaque alpha.\<close>

definition saved_stop :: "ColorStop \<Rightarrow> ColorStop" where
  "saved_stop s = \<lparr>pos = fmt 6 (pos s), rgb = QColor_rgb (QColor_of_rgb (rgb s))\<rparr>"

subsection \<open>Concrete inputs\<close>

text \<open>The window of the tests, on the gradient from black to white, with the attribute
  \<^verbatim>\<open>num_colors = 16\<close> set as \<^verbatim>\<open>test_min_max_colors\<close> sets it; a module with a
  constructor and arrays, one with arrays only, one with neither; a gradient of three stops
  (black, red at 1/2, white).\<close>

definition black :: nat where "black = 4278190080"

definition white :: nat where "white = 4294967295"

definition window16 :: ColormapMakerApp where
  "window16 = \<lparr>colormap = EditableColormap black white, num_colors = Some 16,
     stops_table = [], rgb_preview = [], dialogs = []\<rparr>"

definition constructor_module :: pymodule where
  "constructor_module =
     \<lparr>create_colormap = Some (Inr (EditableColormap black white)),
      color_positions = Some [0, 1 / 2, 1],
      rgb_colors = Some (map entry_list [(1, 0, 0), (0, 1, 0), (0, 0, 1)]),
      get_rgb_array = None, get_positions = None\<rparr>"

definition arrays_module :: pymodule where
  "arrays_module =
     \<lparr>create_colormap = None,
      color_positions = Some [3 / 10, 1 / 2, 7 / 10],
      rgb_colors = Some (map entry_list [(0, 0, 0), (1, 0, 0), (1, 1, 1)]),
      get_rgb_array = None, get_positions = None\<rparr>"

definition empty_module :: pymodule where
  "empty_module =
     \<lparr>create_colormap = None, color_positions = None, rgb_colors = None,
      get_rgb_array = None, get_positions = None\<rparr>"

definition three_stops :: colormap where
  "three_stops = [\<lparr>pos = 0, rgb = black\<rparr>, \<lparr>pos = 1 / 2, rgb = 4294901760\<rparr>, \<lparr>pos = 1, rgb = white\<rparr>]"

text \<open>A module whose constructor gives the gradient of three stops, while its lists
  describe another gradient (red, green at 1/4, blue).\<close>

definition both_module :: pymodule where
  "both_module =
     \<lparr>create_colormap = Some (Inr three_stops),
      color_positions = Some [0, 1 / 4, 1],
      rgb_colors = Some (map entry_list [(1, 0, 0), (0, 1, 0), (0, 0, 1)]),
      get_rgb_array = None, get_positions = None\<rparr>"

text \<open>Saving the window's gradient and loading the written file back, as
  \<^verbatim>\<open>test_load_colormap\<close> does: the colormap the window holds afterwards.\<close>

definition save_then_load :: "ColormapMakerApp \<Rightarrow> string \<Rightarrow> colormap option" where
  "save_then_load self filename =
     (case save_colormap self filename None of
        Inr (Some f) \<Rightarrow> Some (colormap (load_colormap self filename (Inr (exec_module f))))
      | _ \<Rightarrow> None)"

text \<open>A window whose gradient has an inner stop at 1/1024 = 0.0009765625, and one on the
  gradient of three stops.\<close>

definition fine_window :: ColormapMakerApp where
  "fine_window =
     \<lparr>colormap = [\<lparr>pos = 0, rgb = black\<rparr>, \<lparr>pos = 1 / 1024, rgb = 4294901760\<rparr>,
                  \<lparr>pos = 1, rgb = white\<rparr>],
      num_colors = None, stops_table = [], rgb_preview = [], dialogs = []\<rparr>"

definition three_window :: ColormapMakerApp where
  "three_window =
     \<lparr>colormap = three_stops, num_colors = None, stops_table = [], rgb_preview = [],
      dialogs = []\<rparr>"

text \<open>A window whose gradient has an inner stop at 0.0048.\<close>

definition narrow_window :: ColormapMakerApp where
  "narrow_window =
     \<lparr>colormap = [\<lparr>pos = 0, rgb = black\<rparr>, \<lparr>pos = 3 / 625, rgb = white\<rparr>,
                  \<lparr>pos = 1, rgb = black\<rparr>],
      num_colors = None, stops_table = [], rgb_preview = [], dialogs = []\<rparr>"

section \<open>Properties\<close>

subsection \<open>Evaluating and sampling\<close>

lemma floor_numeral_div_rat:
  "\<lfloor>(numeral a :: rat) / numeral b\<rfloor> = numeral a div numeral b"
  using floor_divide_of_int_eq [of "numeral a" "numeral b", where ?'a = rat] by simp

lemma GradientSampler_Cons: "GradientSampler (lo # rest) p = Some (sample_from lo rest (max 0 (min 1 p)))"
  by (simp add: GradientSampler_def)

lemma those_samples:
  "those (map (GradientSampler (lo # rest)) ps) = Some (map (\<lambda>p. sample_from lo rest (max 0 (min 1 p))) ps)"
  by (induction ps) (simp_all add: GradientSampler_Cons)

lemma those_samples_comp:
  "those (map (\<lambda>i. GradientSampler (lo # rest) (f i)) is) = Some (map (\<lambda>i. sample_from lo rest (max 0 (min 1 (f i)))) is)"
  by (induction "is") (simp_all add: GradientSampler_Cons)

lemma update_tables_nonempty:
  "colormap self = lo # rest \<Longrightarrow>
   update_tables self = Returned (self\<lparr>stops_table := map stop_row (enumerate 0 (lo # rest)),
      rgb_preview := map (preview_row 512) (enumerate 0
        (map (\<lambda>i. sample_from lo rest (max 0 (min 1 (of_nat i / 511)))) [0..<512]))\<rparr>)"
  by (simp add: update_tables_def Let_def those_samples_comp del: upt.simps)

lemma update_tables_colormap:
  "(update_tables self = Returned s \<longrightarrow> colormap s = colormap self \<and> dialogs s = dialogs self) \<and>
   (update_tables self = Raised e s \<longrightarrow> colormap s = colormap self \<and> dialogs s = dialogs self)"
  by (auto simp add: update_tables_def Let_def split: option.splits)

lemma save_colormap_written:
  assumes "colormap self = lo # rest" "filename \<noteq> []"
  shows "save_colormap self filename None = Inr (Some
     \<lparr>written_color_positions = map (\<lambda>stop. fmt 6 (pos stop)) (lo # rest),
      written_rgb_colors = map rgb_colors_line (lo # rest),
      color1_rgb = QColor_rgb (QColor_of_rgb (rgb lo)),
      color2_rgb = QColor_rgb (QColor_of_rgb (rgb (last (lo # rest)))),
      addColorStop_lines = map addColorStop_line (butlast rest),
      rgb_array_rows = map (\<lambda>i. rgb_array_row (sample_from lo rest (max 0 (min 1 (of_nat i / 511))))) [0..<512],
      positions_rows = positions_groups (map (\<lambda>i. of_nat i / 511) [0..<512])\<rparr>)"
  using assms
  by (simp add: save_colormap_def index_def index_last_def Let_def those_samples comp_def del: upt.simps)

subsection \<open>Loading\<close>

lemma colormap_load_colormap:
  assumes "filename \<noteq> []" "decode mdl = Inr cm"
  shows "colormap (load_colormap self filename (Inr mdl)) = cm"
proof (cases "update_tables (self\<lparr>colormap := cm\<rparr>)")
  case (Returned s)
  with assms update_tables_colormap [where self = "self\<lparr>colormap := cm\<rparr>" and s = s]
  show ?thesis
    by (simp add: load_colormap_def)
next
  case (Raised e s)
  with assms update_tables_colormap [where self = "self\<lparr>colormap := cm\<rparr>" and s = s and e = e]
  show ?thesis
    by (simp add: load_colormap_def)
qed

lemma load_colormap_error:
  assumes "filename \<noteq> []" "decode mdl = Inl e"
  shows "load_colormap self filename (Inr mdl) = self\<lparr>dialogs := dialogs self @ [critical e]\<rparr>"
  using assms by (simp add: load_colormap_def)

lemma color_of_entry_entry:
  "(case color_of_entry (entry_list t) of Inl e \<Rightarrow> Inl e | Inr c \<Rightarrow> f (QColor_rgb c)) = f (entry_rgb t)"
  by (cases t) (simp add: color_of_entry_def entry_list_def index_def)

lemma unpack3_entry: "unpack3 (entry_list t) = Inr t"
  by (cases t) (simp add: entry_list_def)

lemma add_intermediate_entries:
  assumes "\<forall>i \<in> set is. i < length ps \<and> i < length ts"
  shows "add_intermediate ps (map entry_list ts) is cm =
         Inr (foldl (\<lambda>cm i. addColorStop (ps ! i) (entry_rgb (ts ! i)) cm) cm is)"
  using assms
proof (induction "is" arbitrary: cm)
  case Nil
  show ?case by simp
next
  case (Cons i rest)
  then show ?case
    by (cases "ts ! i") (simp add: index_def unpack3_entry)
qed

lemma colormap_from_arrays_entries:
  assumes "ts \<noteq> []" "length ts = length ps"
  shows "colormap_from_arrays ps (map entry_list ts) =
         Inr (foldl (\<lambda>cm i. addColorStop (ps ! i) (entry_rgb (ts ! i)) cm)
                (EditableColormap (entry_rgb (hd ts)) (entry_rgb (last ts)))
                [1..<length ps - 1])"
proof -
  have inner: "\<forall>i \<in> set [1..<length ps - 1]. i < length ps \<and> i < length ts"
    using assms by auto
  have first: "index (map entry_list ts) 0 = Inr (entry_list (hd ts))"
    using assms(1) by (cases ts) (simp_all add: index_def)
  have final: "index_last (map entry_list ts) = Inr (entry_list (last ts))"
    using assms(1) by (simp add: index_last_def last_map)
  have "colormap_from_arrays ps (map entry_list ts) =
        add_intermediate ps (map entry_list ts) [1..<length ps - 1]
          (EditableColormap (entry_rgb (hd ts)) (entry_rgb (last ts)))"
    unfolding colormap_from_arrays_def first final sum.case
    by (cases "hd ts"; cases "last ts") (simp add: color_of_entry_def entry_list_def index_def)
  with add_intermediate_entries [OF inner] show ?thesis
    by simp
qed

lemma decode_constructor: "create_colormap mdl = Some made \<Longrightarrow> decode mdl = made"
  by (simp add: decode_def)

lemma decode_arrays:
  "create_colormap mdl = None \<Longrightarrow> color_positions mdl = Some ps \<Longrightarrow> rgb_colors mdl = Some cs \<Longrightarrow>
   decode mdl = colormap_from_arrays ps cs"
  by (simp add: decode_def)

lemma decode_neither:
  "create_colormap mdl = None \<Longrightarrow> color_positions mdl = None \<or> rgb_colors mdl = None \<Longrightarrow>
   decode mdl = Inl (ValueError ''File does not contain valid colormap data'')"
  by (auto simp add: decode_def split: option.splits)

lemma upt_1_2: "[1..<3 - 1] = [Suc 0]"
  by (simp add: upt_rec)

text \<open>
  Claim C3. \<^verbatim>\<open>load_colormap\<close> accepts two shapes of module. Where the module has
  \<^verbatim>\<open>create_colormap\<close>, the colormap that call returns becomes the window's colormap.
  Where it has none but has the parallel lists \<^verbatim>\<open>color_positions\<close> and \<^verbatim>\<open>rgb_colors\<close>,
  the colormap is built from the first and the last colour as boundary stops, and every pair
  strictly between the first and the last index is added in order. Where it has neither the
  constructor nor both lists, the load fails with the error "File does not contain valid
  colormap data", shown in a dialog, and the window is otherwise unchanged.
\<close>

theorem C3_load_accepts_two_shapes:
  assumes "filename \<noteq> []"
  shows "(create_colormap mdl = Some (Inr cm) \<longrightarrow>
            colormap (load_colormap self filename (Inr mdl)) = cm) \<and>
         (create_colormap mdl = None \<and> color_positions mdl = Some ps \<and>
          rgb_colors mdl = Some (map entry_list ts) \<and> ts \<noteq> [] \<and> length ts = length ps \<longrightarrow>
            colormap (load_colormap self filename (Inr mdl)) =
              foldl (\<lambda>cm i. addColorStop (ps ! i) (entry_rgb (ts ! i)) cm)
                (EditableColormap (entry_rgb (hd ts)) (entry_rgb (last ts)))
                [1..<length ps - 1]) \<and>
         (create_colormap mdl = None \<and> (color_positions mdl = None \<or> rgb_colors mdl = None) \<longrightarrow>
            load_colormap self filename (Inr mdl) =
              self\<lparr>dialogs := dialogs self @
                [(''Error Loading Colormap'',
                  ''Failed to load colormap from file:\<newline>File does not contain valid colormap data'')]\<rparr>)"
proof (intro conjI impI)
  assume "create_colormap mdl = Some (Inr cm)"
  then have "decode mdl = Inr cm"
    by (rule decode_constructor)
  with assms show "colormap (load_colormap self filename (Inr mdl)) = cm"
    by (rule colormap_load_colormap)
next
  assume a: "create_colormap mdl = None \<and> color_positions mdl = Some ps \<and>
             rgb_colors mdl = Some (map entry_list ts) \<and> ts \<noteq> [] \<and> length ts = length ps"
  then have "decode mdl = colormap_from_arrays ps (map entry_list ts)"
    by (simp add: decode_arrays)
  also have "\<dots> = Inr (foldl (\<lambda>cm i. addColorStop (ps ! i) (entry_rgb (ts ! i)) cm)
                (EditableColormap (entry_rgb (hd ts)) (entry_rgb (last ts)))
                [1..<length ps - 1])"
    using a by (intro colormap_from_arrays_entries) simp_all
  finally show "colormap (load_colormap self filename (Inr mdl)) =
              foldl (\<lambda>cm i. addColorStop (ps ! i) (entry_rgb (ts ! i)) cm)
                (EditableColormap (entry_rgb (hd ts)) (entry_rgb (last ts)))
                [1..<length ps - 1]"
    using assms by (rule colormap_load_colormap [rotated])
next
  assume "create_colormap mdl = None \<and> (color_positions mdl = None \<or> rgb_colors mdl = None)"
  then have "decode mdl = Inl (ValueError ''File does not contain valid colormap data'')"
    by (simp add: decode_neither)
  with assms show "load_colormap self filename (Inr mdl) =
              self\<lparr>dialogs := dialogs self @
                [(''Error Loading Colormap'',
                  ''Failed to load colormap from file:\<newline>File does not contain valid colormap data'')]\<rparr>"
    by (simp add: load_colormap_error critical_def)
qed

theorem C3_load_accepts_two_shapes_witness:
  "colormap (load_colormap window16 ''saved.py'' (Inr constructor_module)) =
     EditableColormap black white \<and>
   colormap (load_colormap window16 ''foreign.py'' (Inr arrays_module)) =
     [\<lparr>pos = 0, rgb = black\<rparr>, \<lparr>pos = 1 / 2, rgb = 4294901760\<rparr>, \<lparr>pos = 1, rgb = white\<rparr>] \<and>
   load_colormap window16 ''other.py'' (Inr empty_module) =
     window16\<lparr>dialogs := dialogs window16 @
       [(''Error Loading Colormap'',
         ''Failed to load colormap from file:\<newline>File does not contain valid colormap data'')]\<rparr>"
  using
    C3_load_accepts_two_shapes [where filename = "''saved.py''" and mdl = constructor_module
      and cm = "EditableColormap black white" and self = window16]
    C3_load_accepts_two_shapes [where filename = "''foreign.py''" and mdl = arrays_module
      and self = window16 and ps = "[3 / 10, 1 / 2, 7 / 10]"
      and ts = "[(0, 0, 0), (1, 0, 0), (1, 1, 1)]"]
    C3_load_accepts_two_shapes [where filename = "''other.py''" and mdl = empty_module
      and self = window16]
  by (simp add: constructor_module_def arrays_module_def empty_module_def upt_1_2
      EditableColormap_def addColorStop_def fromRgbF_def channel_of_float_def QColor_rgb_def
      black_def white_def)

text \<open>
  Claim C9. A module that has \<^verbatim>\<open>create_colormap\<close> is loaded through it, whatever its lists
  \<^verbatim>\<open>color_positions\<close> and \<^verbatim>\<open>rgb_colors\<close> hold, present or not: what the body of
  \<^verbatim>\<open>load_colormap\<close> decodes is what \<^verbatim>\<open>create_colormap()\<close> gives; when that is a
  colormap, it is the colormap of the window after the load; when it is an exception, the
  window only gains the error dialog; and replacing the lists changes nothing in the result.
\<close>

theorem C9_constructor_takes_precedence:
  assumes "create_colormap mdl = Some made"
  shows "load_colormap self filename (Inr (mdl\<lparr>color_positions := ps, rgb_colors := cs\<rparr>)) =
           load_colormap self filename (Inr mdl) \<and>
         decode (mdl\<lparr>color_positions := ps, rgb_colors := cs\<rparr>) = made \<and>
         (\<forall>cm. filename \<noteq> [] \<and> made = Inr cm \<longrightarrow>
            colormap (load_colormap self filename
              (Inr (mdl\<lparr>color_positions := ps, rgb_colors := cs\<rparr>))) = cm) \<and>
         (\<forall>e. filename \<noteq> [] \<and> made = Inl e \<longrightarrow>
            load_colormap self filename (Inr (mdl\<lparr>color_positions := ps, rgb_colors := cs\<rparr>)) =
              self\<lparr>dialogs := dialogs self @ [critical e]\<rparr>)"
proof (intro conjI allI impI)
  show "load_colormap self filename (Inr (mdl\<lparr>color_positions := ps, rgb_colors := cs\<rparr>)) =
           load_colormap self filename (Inr mdl)"
    using assms by (simp add: load_colormap_def decode_def)
next
  show d: "decode (mdl\<lparr>color_positions := ps, rgb_colors := cs\<rparr>) = made"
    using assms by (simp add: decode_def)
  {
    fix cm
    assume "filename \<noteq> [] \<and> made = Inr cm"
    with d show "colormap (load_colormap self filename
              (Inr (mdl\<lparr>color_positions := ps, rgb_colors := cs\<rparr>))) = cm"
      by (simp add: colormap_load_colormap)
  next
    fix e
    assume "filename \<noteq> [] \<and> made = Inl e"
    with d show "load_colormap self filename (Inr (mdl\<lparr>color_positions := ps, rgb_colors := cs\<rparr>)) =
              self\<lparr>dialogs := dialogs self @ [critical e]\<rparr>"
      by (simp add: load_colormap_error)
  }
qed

theorem C9_constructor_takes_precedence_witness:
  "create_colormap both_module = Some (Inr three_stops) \<and>
   colormap (load_colormap window16 ''saved.py'' (Inr both_module)) = three_stops \<and>
   colormap window16 \<noteq> three_stops \<and>
   decode (both_module\<lparr>create_colormap := None\<rparr>) \<noteq> Inr three_stops \<and>
   load_colormap window16 ''saved.py''
     (Inr (both_module\<lparr>color_positions := None, rgb_colors := Some [[5]]\<rparr>)) =
   load_colormap window16 ''saved.py'' (Inr both_module)"
proof -
  have made: "create_colormap both_module = Some (Inr three_stops)"
    by (simp add: both_module_def)
  note inst = C9_constructor_takes_precedence [OF made, where self = window16
      and filename = "''saved.py''"]
  have own: "both_module\<lparr>color_positions := color_positions both_module,
      rgb_colors := rgb_colors both_module\<rparr> = both_module"
    by simp
  from inst [where ps = "color_positions both_module" and cs = "rgb_colors both_module"]
  have used: "colormap (load_colormap window16 ''saved.py'' (Inr both_module)) = three_stops"
    unfolding own by simp
  from inst [where ps = None and cs = "Some [[5]]"]
  have ignored: "load_colormap window16 ''saved.py''
     (Inr (both_module\<lparr>color_positions := None, rgb_colors := Some [[5]]\<rparr>)) =
     load_colormap window16 ''saved.py'' (Inr both_module)"
    by (rule conjunct1)
  have differs: "colormap window16 \<noteq> three_stops"
    by (simp add: window16_def three_stops_def EditableColormap_def)
  have arrays: "decode (both_module\<lparr>create_colormap := None\<rparr>) \<noteq> Inr three_stops"
    by (simp add: decode_def both_module_def colormap_from_arrays_def index_def index_last_def
        color_of_entry_def entry_list_def upt_1_2 EditableColormap_def addColorStop_def
        three_stops_def)
  from made used differs arrays ignored show ?thesis
    by (intro conjI)
qed











subsection \<open>What the code does where the tests and the comments expect otherwise\<close>

text \<open>
  Claim C8, on a file that cannot be opened. In \<^verbatim>\<open>save_colormap\<close> the exception of
  \<^verbatim>\<open>open(filename, 'w')\<close> leaves the method and no dialog is shown. In
  \<^verbatim>\<open>load_colormap\<close> the exception is caught: a dialog shows its message and the window
  is otherwise unchanged.
\<close>

theorem C8_save_open_failure_not_handled:
  "save_colormap self ''colormap.py'' (Some (OSError ''Permission denied'')) =
     Inl (OSError ''Permission denied'') \<and>
   load_colormap self ''colormap.py'' (Inl (OSError ''Permission denied'')) =
     self\<lparr>dialogs := dialogs self @
       [(''Error Loading Colormap'',
         ''Failed to load colormap from file:\<newline>Permission denied'')]\<rparr>"
  by (simp add: save_colormap_def load_colormap_def critical_def)

text \<open>
  Claim C2, on the file saved from the window whose \<^verbatim>\<open>num_colors\<close> is 16: the accessor
  \<^verbatim>\<open>get_rgb_array\<close> called without argument returns 512 rows, and called with a count it
  raises TypeError, having no parameter.
\<close>

theorem C2_accessor_takes_no_count:
  "\<exists>f acc rows.
     save_colormap window16 ''test_colormap.py'' None = Inr (Some f) \<and>
     get_rgb_array (exec_module f) = Some acc \<and>
     call_accessor acc None = Inr rows \<and> length rows = 512 \<and>
     call_accessor acc (Some 100) =
       Inl (TypeError ''get_rgb_array() takes 0 positional arguments but 1 was given'')"
proof -
  have "colormap window16 = \<lparr>pos = 0, rgb = black\<rparr> # [\<lparr>pos = 1, rgb = white\<rparr>]"
    by (simp add: window16_def EditableColormap_def)
  from save_colormap_written [OF this, of "''test_colormap.py''"] show ?thesis
    by (simp add: exec_module_def del: upt.simps)
qed

text \<open>
  Claim C4, on the window whose \<^verbatim>\<open>num_colors\<close> is 16: \<^verbatim>\<open>update_tables\<close> fills 512
  preview rows and \<^verbatim>\<open>save_colormap\<close> writes 512 samples.
\<close>

theorem C4_sample_count_fixed_at_512:
  "num_colors window16 = Some 16 \<and>
   (\<exists>s f. update_tables window16 = Returned s \<and> length (rgb_preview s) = 512 \<and>
      save_colormap window16 ''test_min_colors.py'' None = Inr (Some f) \<and>
      length (rgb_array_rows f) = 512)"
proof -
  have cm: "colormap window16 = \<lparr>pos = 0, rgb = black\<rparr> # [\<lparr>pos = 1, rgb = white\<rparr>]"
    by (simp add: window16_def EditableColormap_def)
  from save_colormap_written [OF cm, of "''test_min_colors.py''"] update_tables_nonempty [OF cm]
  show ?thesis
    by (simp add: window16_def del: upt.simps)
qed

text \<open>
  Claim C5, on \<^verbatim>\<open>add_new_color_stop\<close>: for every position, occupied or not, and with
  either colour method, the widget's \<^verbatim>\<open>add_handle_at_relative_pos\<close> is called and the
  tables are refreshed; the method has no branch that rejects a position.
\<close>

theorem C5_add_stop_has_no_duplicate_check:
  "add_new_color_stop add_handle_at_relative_pos self (Some (position, ChooseColor)) (Some color) =
     update_tables (self\<lparr>colormap := add_handle_at_relative_pos position color (colormap self)\<rparr>) \<and>
   add_new_color_stop add_handle_at_relative_pos (self\<lparr>colormap := lo # rest\<rparr>)
       (Some (position, InterpolateFromColormap)) picked =
     update_tables (self\<lparr>colormap := add_handle_at_relative_pos position
       (QColor_of_rgb (sample_from lo rest (max 0 (min 1 position)))) (lo # rest)\<rparr>)"
  by (simp add: add_new_color_stop_def Let_def GradientSampler_Cons)

text \<open>
  Claim C7, on the gradient from black to white with a stop added at position 0 that is simply
  inserted: the method returns without a dialog, the positions are 0, 0, 1, and the Gradient
  invariant no longer holds.
\<close>

theorem C7_add_stop_breaks_unique_positions:
  "valid_gradient (colormap window16) \<and>
   (\<exists>s. add_new_color_stop (\<lambda>p c. addColorStop p (QColor_rgb c)) window16
           (Some (0, ChooseColor)) (Some \<lparr>red = 255, green = 0, blue = 0\<rparr>) = Returned s \<and>
        map pos (colormap s) = [0, 0, 1] \<and> \<not> valid_gradient (colormap s) \<and> dialogs s = [])"
proof -
  have cm: "colormap (window16\<lparr>colormap := addColorStop 0 (QColor_rgb \<lparr>red = 255, green = 0, blue = 0\<rparr>)
              (colormap window16)\<rparr>) =
            \<lparr>pos = 0, rgb = black\<rparr> #
              [\<lparr>pos = 0, rgb = QColor_rgb \<lparr>red = 255, green = 0, blue = 0\<rparr>\<rparr>, \<lparr>pos = 1, rgb = white\<rparr>]"
    by (simp add: window16_def EditableColormap_def addColorStop_def)
  from update_tables_nonempty [OF cm] show ?thesis
    by (simp add: add_new_color_stop_def Let_def valid_gradient_def window16_def
        EditableColormap_def addColorStop_def del: upt.simps)
qed

subsection \<open>The sampler\<close>

lemma sample_from_between:
  assumes "sorted_wrt (<) (map pos (lo # rest))" "i < length rest"
    "pos ((lo # rest) ! i) < p" "p < pos (rest ! i)"
  shows "sample_from lo rest p = interpolate ((lo # rest) ! i) (rest ! i) p"
  using assms
proof (induction rest arbitrary: lo i)
  case Nil
  then show ?case by simp
next
  case (Cons hi rest)
  show ?case
  proof (cases i)
    case 0
    with Cons.prems show ?thesis by simp
  next
    case (Suc j)
    with Cons.prems have j: "j < length rest" "pos ((hi # rest) ! j) < p" "p < pos (rest ! j)"
      by simp_all
    from Cons.prems(1) have sorted: "sorted_wrt (<) (map pos (hi # rest))" and lt: "pos lo < pos hi"
      by simp_all
    from sorted j(1) have "pos hi \<le> pos ((hi # rest) ! j)"
      by (cases j) (auto simp add: less_imp_le)
    with j(2) lt have "\<not> p \<le> pos lo" "\<not> p < pos hi"
      by simp_all
    with Cons.IH [OF sorted j] Suc show ?thesis
      by simp
  qed
qed

lemma sample_from_at_stop:
  assumes "sorted_wrt (<) (map pos (lo # rest))" "i < length (lo # rest)"
  shows "sample_from lo rest (pos ((lo # rest) ! i)) = rgb ((lo # rest) ! i)"
  using assms
proof (induction rest arbitrary: lo i)
  case Nil
  then show ?case by simp
next
  case (Cons hi rest)
  show ?case
  proof (cases i)
    case 0
    then show ?thesis by simp
  next
    case (Suc j)
    with Cons.prems have j: "j < length (hi # rest)"
      by simp
    from Cons.prems(1) have sorted: "sorted_wrt (<) (map pos (hi # rest))" and lt: "pos lo < pos hi"
      by simp_all
    from sorted j have "pos hi \<le> pos ((hi # rest) ! j)"
      by (cases j) (auto simp add: less_imp_le)
    with lt have "\<not> pos ((hi # rest) ! j) \<le> pos lo" "\<not> pos ((hi # rest) ! j) < pos hi"
      by simp_all
    with Cons.IH [OF sorted j] Suc show ?thesis
      by simp
  qed
qed

lemma valid_gradient_positions:
  assumes "valid_gradient cm" "i < length cm"
  shows "0 \<le> pos (cm ! i)" "pos (cm ! i) \<le> 1"
proof -
  from assms(1) have ne: "cm \<noteq> []" and sorted: "sorted_wrt (<) (map pos cm)"
    by (auto simp add: valid_gradient_def)
  from assms(1) have first: "pos (cm ! 0) = 0" and final: "pos (cm ! (length cm - 1)) = 1"
    by (simp_all add: valid_gradient_def hd_conv_nth [OF ne] last_conv_nth [OF ne])
  have mono: "pos (cm ! j) \<le> pos (cm ! k)" if "j \<le> k" "k < length cm" for j k
  proof (cases "j = k")
    case True
    then show ?thesis by simp
  next
    case False
    with that sorted sorted_wrt_nth_less [of "(<)" "map pos cm" j k] show ?thesis
      by simp
  qed
  from mono [of 0 i] assms(2) first show "0 \<le> pos (cm ! i)"
    by simp
  from mono [of i "length cm - 1"] assms(2) final show "pos (cm ! i) \<le> 1"
    by simp
qed

text \<open>
  Claim C6. On a valid gradient, a position strictly between two adjacent stops gets, in each
  channel, the value round(lo + t * (hi - lo)) kept in [0, 255], with
  t = (p - lo.position) / (hi.position - lo.position); a position equal to a stop's position
  gets that stop's colour as it is; and the gradient from black at 0 to white at 1 sampled at
  1/2 gives (128, 128, 128).
\<close>

theorem C6_sampler_interpolates_between_stops:
  assumes "valid_gradient cm"
  shows "(\<forall>i. Suc i < length cm \<and> pos (cm ! i) < p \<and> p < pos (cm ! Suc i) \<longrightarrow>
            GradientSampler cm p =
              Some (let t = (p - pos (cm ! i)) / (pos (cm ! Suc i) - pos (cm ! i));
                        lo = QColor_of_rgb (rgb (cm ! i));
                        hi = QColor_of_rgb (rgb (cm ! Suc i))
                    in qRgb (lerp_channel (red lo) (red hi) t)
                            (lerp_channel (green lo) (green hi) t)
                            (lerp_channel (blue lo) (blue hi) t))) \<and>
         (\<forall>i. i < length cm \<longrightarrow> GradientSampler cm (pos (cm ! i)) = Some (rgb (cm ! i))) \<and>
         lerp_channel a b t =
           nat (max 0 (min 255 (round (of_nat a + t * (of_nat b - of_nat a))))) \<and>
         GradientSampler [\<lparr>pos = 0, rgb = qRgb 0 0 0\<rparr>, \<lparr>pos = 1, rgb = qRgb 255 255 255\<rparr>] (1 / 2) =
           Some (qRgb 128 128 128)"
proof (intro conjI allI impI)
  fix i
  assume a: "Suc i < length cm \<and> pos (cm ! i) < p \<and> p < pos (cm ! Suc i)"
  from assms obtain lo rest where cm: "cm = lo # rest"
    by (cases cm) (auto simp add: valid_gradient_def)
  from assms have "sorted_wrt (<) (map pos cm)"
    by (simp add: valid_gradient_def)
  then have sorted: "sorted_wrt (<) (map pos (lo # rest))"
    unfolding cm .
  from a valid_gradient_positions [OF assms, of i] valid_gradient_positions [OF assms, of "Suc i"]
  have "max 0 (min 1 p) = p"
    by simp
  moreover from a cm have "i < length rest" "pos ((lo # rest) ! i) < p" "p < pos (rest ! i)"
    by simp_all
  note sample_from_between [OF sorted this]
  ultimately show "GradientSampler cm p =
              Some (let t = (p - pos (cm ! i)) / (pos (cm ! Suc i) - pos (cm ! i));
                        lo = QColor_of_rgb (rgb (cm ! i));
                        hi = QColor_of_rgb (rgb (cm ! Suc i))
                    in qRgb (lerp_channel (red lo) (red hi) t)
                            (lerp_channel (green lo) (green hi) t)
                            (lerp_channel (blue lo) (blue hi) t))"
    by (simp add: cm GradientSampler_Cons interpolate_def)
next
  fix i
  assume i: "i < length cm"
  from assms obtain lo rest where cm: "cm = lo # rest"
    by (cases cm) (auto simp add: valid_gradient_def)
  from assms have "sorted_wrt (<) (map pos cm)"
    by (simp add: valid_gradient_def)
  then have sorted: "sorted_wrt (<) (map pos (lo # rest))"
    unfolding cm .
  from valid_gradient_positions [OF assms i] have "max 0 (min 1 (pos (cm ! i))) = pos (cm ! i)"
    by simp
  with sample_from_at_stop [OF sorted, of i] i show "GradientSampler cm (pos (cm ! i)) = Some (rgb (cm ! i))"
    by (simp add: cm GradientSampler_Cons)
next
  show "lerp_channel a b t = nat (max 0 (min 255 (round (of_nat a + t * (of_nat b - of_nat a)))))"
    by (simp add: lerp_channel_def)
next
  show "GradientSampler [\<lparr>pos = 0, rgb = qRgb 0 0 0\<rparr>, \<lparr>pos = 1, rgb = qRgb 255 255 255\<rparr>] (1 / 2) =
           Some (qRgb 128 128 128)"
    by (simp add: GradientSampler_def interpolate_def QColor_of_rgb_def lerp_channel_def qRgb_def
        round_def Let_def)
qed

theorem C6_sampler_interpolates_between_stops_witness:
  "valid_gradient three_stops \<and>
   GradientSampler three_stops (1 / 4) = Some (qRgb 128 0 0) \<and>
   GradientSampler three_stops (1 / 2) = Some 4294901760"
proof -
  have v: "valid_gradient three_stops"
    by (simp add: valid_gradient_def three_stops_def)
  note inst = C6_sampler_interpolates_between_stops [OF v, where p = "1 / 4" and a = 0 and b = 0
      and t = 0]
  have between: "Suc 0 < length three_stops \<and> pos (three_stops ! 0) < 1 / 4 \<and>
      1 / 4 < pos (three_stops ! Suc 0)"
    by (simp add: three_stops_def)
  from inst [THEN conjunct1, rule_format, OF between]
  have quarter: "GradientSampler three_stops (1 / 4) = Some (qRgb 128 0 0)"
    by (simp add: three_stops_def black_def QColor_of_rgb_def lerp_channel_def round_def Let_def)
  have "Suc 0 < length three_stops"
    by (simp add: three_stops_def)
  from inst [THEN conjunct2, THEN conjunct1, rule_format, OF this]
  have "GradientSampler three_stops (1 / 2) = Some 4294901760"
    by (simp add: three_stops_def)
  with v quarter show ?thesis
    by simp
qed

subsection \<open>Colour values and the stops written by a save\<close>

lemma pack_split:
  fixes r g b :: nat
  assumes "g < 256" "b < 256"
  shows "(4278190080 + r * 65536 + g * 256 + b) div 65536 = 65280 + r"
    and "(4278190080 + r * 65536 + g * 256 + b) div 256 = 16711680 + r * 256 + g"
    and "(4278190080 + r * 65536 + g * 256 + b) mod 256 = b"
proof -
  have e1: "4278190080 + r * 65536 + g * 256 + b = (g * 256 + b) + (65280 + r) * 65536"
    by simp
  from assms have "g * 256 + b < 65536"
    by simp
  then have "(g * 256 + b) div 65536 = 0"
    by (rule div_less)
  moreover have "((g * 256 + b) + (65280 + r) * 65536) div 65536 = (65280 + r) + (g * 256 + b) div 65536"
    by (rule div_mult_self1) simp
  ultimately show "(4278190080 + r * 65536 + g * 256 + b) div 65536 = 65280 + r"
    by (simp only: e1 add_0_right)
  have e2: "4278190080 + r * 65536 + g * 256 + b = b + (16711680 + r * 256 + g) * 256"
    by simp
  have "(b + (16711680 + r * 256 + g) * 256) div 256 = (16711680 + r * 256 + g) + b div 256"
    by (rule div_mult_self1) simp
  with assms(2) show "(4278190080 + r * 65536 + g * 256 + b) div 256 = 16711680 + r * 256 + g"
    by (simp only: e2 div_less add_0_right)
  have "(b + (16711680 + r * 256 + g) * 256) mod 256 = b mod 256"
    by (rule mod_mult_self1)
  with assms(2) show "(4278190080 + r * 65536 + g * 256 + b) mod 256 = b"
    by (simp only: e2 mod_less)
qed

lemma unpack_pack:
  fixes r g b :: nat
  assumes "r < 256" "g < 256" "b < 256"
  shows "(4278190080 + r * 65536 + g * 256 + b) div 65536 mod 256 = r"
    and "(4278190080 + r * 65536 + g * 256 + b) div 256 mod 256 = g"
    and "(4278190080 + r * 65536 + g * 256 + b) mod 256 = b"
proof -
  have "(r + 255 * 256) mod 256 = r mod 256"
    by (rule mod_mult_self1)
  moreover have "65280 + r = r + 255 * 256"
    by simp
  ultimately have "(65280 + r) mod 256 = r"
    using assms(1) by (simp only: mod_less)
  with pack_split(1) [OF assms(2,3), of r] show "(4278190080 + r * 65536 + g * 256 + b) div 65536 mod 256 = r"
    by (simp only:)
  have "(g + (65280 + r) * 256) mod 256 = g mod 256"
    by (rule mod_mult_self1)
  moreover have "16711680 + r * 256 + g = g + (65280 + r) * 256"
    by simp
  ultimately have "(16711680 + r * 256 + g) mod 256 = g"
    using assms(2) by (simp only: mod_less)
  with pack_split(2) [OF assms(2,3), of r] show "(4278190080 + r * 65536 + g * 256 + b) div 256 mod 256 = g"
    by (simp only:)
  from pack_split(3) [OF assms(2,3), of r] show "(4278190080 + r * 65536 + g * 256 + b) mod 256 = b" .
qed

lemma QColor_of_rgb_QColor_rgb:
  "QColor_of_rgb (QColor_rgb (QColor_of_rgb n)) = QColor_of_rgb n"
proof -
  have lt: "n div 65536 mod 256 < 256" "n div 256 mod 256 < 256" "n mod 256 < 256"
    by simp_all
  from unpack_pack [OF lt] show ?thesis
    by (simp add: QColor_of_rgb_def QColor_rgb_def)
qed

lemma pos_opaque_stop: "pos (opaque_stop s) = pos s"
  by (simp add: opaque_stop_def)

lemma map_pos_opaque_stop: "map pos (map opaque_stop xs) = map pos xs"
  by (simp add: comp_def pos_opaque_stop)

lemma channels_opaque_stop: "QColor_of_rgb (rgb (opaque_stop s)) = QColor_of_rgb (rgb s)"
  by (simp add: opaque_stop_def QColor_of_rgb_QColor_rgb)

lemma interpolate_opaque_stop:
  "interpolate (opaque_stop lo) (opaque_stop hi) p = interpolate lo hi p"
  by (simp add: interpolate_def channels_opaque_stop pos_opaque_stop)

lemma sample_from_opaque_stop:
  "QColor_of_rgb (sample_from (opaque_stop lo) (map opaque_stop rest) p) =
   QColor_of_rgb (sample_from lo rest p)"
  by (induction lo rest p rule: sample_from.induct)
     (simp_all add: channels_opaque_stop pos_opaque_stop interpolate_opaque_stop)

lemma insert_stop_before_last:
  assumes "\<forall>x \<in> set pre. pos x \<le> pos s" "pos s < pos z"
  shows "insert_stop s (pre @ [z]) = pre @ [s, z]"
  using assms by (induction pre) auto

lemma foldl_addColorStop_sorted:
  assumes "sorted_wrt (<) (map pos (pre @ mid @ [z]))"
    "\<forall>s \<in> set mid. 0 \<le> pos s \<and> pos s \<le> 1"
  shows "foldl (\<lambda>cm s. addColorStop (pos s) (rgb s) cm) (pre @ [z]) mid = pre @ mid @ [z]"
  using assms
proof (induction mid arbitrary: pre)
  case Nil
  show ?case by simp
next
  case (Cons m mid)
  from Cons.prems(1) have "\<forall>x \<in> set pre. pos x \<le> pos m" "pos m < pos z"
    by (auto simp add: sorted_wrt_append less_imp_le)
  then have "insert_stop m (pre @ [z]) = (pre @ [m]) @ [z]"
    by (simp add: insert_stop_before_last)
  moreover from Cons.prems(2) have "addColorStop (pos m) (rgb m) (pre @ [z]) = insert_stop m (pre @ [z])"
    by (cases m) (simp add: addColorStop_def)
  moreover from Cons.prems have "foldl (\<lambda>cm s. addColorStop (pos s) (rgb s) cm) ((pre @ [m]) @ [z]) mid =
      (pre @ [m]) @ mid @ [z]"
    by (intro Cons.IH) simp_all
  ultimately show ?case
    by simp
qed

subsection \<open>Saving and loading back\<close>

lemma save_then_load_written:
  assumes "colormap self = lo # rest" "filename \<noteq> []"
  shows "save_then_load self filename =
         Some (foldl (\<lambda>cm (p, c). addColorStop p c cm)
           (EditableColormap (QColor_rgb (QColor_of_rgb (rgb lo)))
              (QColor_rgb (QColor_of_rgb (rgb (last (lo # rest))))))
           (map addColorStop_line (butlast rest)))"
proof -
  note saved = save_colormap_written [OF assms]
  have "decode (exec_module f) = Inr (run_create_colormap f)" for f
    by (simp add: decode_def exec_module_def)
  from colormap_load_colormap [OF assms(2) this]
  have "colormap (load_colormap self filename (Inr (exec_module f))) = run_create_colormap f" for f .
  then show ?thesis
    unfolding save_then_load_def saved
    by (simp add: run_create_colormap_def del: upt.simps)
qed

lemma rgb_array_row_opaque_stop:
  "rgb_array_row (sample_from (opaque_stop lo) (map opaque_stop rest) p) =
   rgb_array_row (sample_from lo rest p)"
  by (simp add: rgb_array_row_def sample_from_opaque_stop)

lemma fmt_0: "fmt n 0 = 0"
  by (simp add: fmt_def round_half_even_def)

lemma fmt_1: "fmt 6 1 = 1"
  by (simp add: fmt_def round_half_even_def)

lemma concat_take_drop:
  "concat (map (\<lambda>k. map f (take n (drop (n * k) xs))) [0..<m]) = map f (take (n * m) xs)"
proof (induction m)
  case 0
  show ?case by simp
next
  case (Suc m)
  have "take (n * Suc m) xs = take (n * m + n) xs"
    by (simp add: add.commute)
  also have "\<dots> = take (n * m) xs @ take n (drop (n * m) xs)"
    by (rule take_add)
  finally have "map f (take (n * Suc m) xs) =
      map f (take (n * m) xs) @ map f (take n (drop (n * m) xs))"
    by simp
  with Suc show ?case
    by simp
qed

lemma positions_groups_512:
  "positions_groups (map g [0..<512]) = map (\<lambda>i. fmt 6 (g i)) [0..<512]"
proof -
  have "positions_groups (map g [0..<512]) = map (fmt 6) (take (10 * 52) (map g [0..<512]))"
    unfolding positions_groups_def by (rule concat_take_drop)
  also have "take (10 * 52) (map g [0..<512]) = map g [0..<512]"
    by (rule take_all) simp
  finally show ?thesis
    by (simp del: upt.simps)
qed

lemma pos_saved_stop: "pos (saved_stop s) = fmt 6 (pos s)"
  by (simp add: saved_stop_def)

lemma foldl_addColorStop_written:
  "foldl (\<lambda>cm (p, c). addColorStop p c cm) init (map addColorStop_line mid) =
   foldl (\<lambda>cm s. addColorStop (pos s) (rgb s) cm) init (map saved_stop mid)"
  by (induction mid arbitrary: init) (simp_all add: addColorStop_line_def saved_stop_def)

lemma run_create_colormap_written:
  assumes "valid_gradient (lo # rest)"
    "sorted_wrt (<) (map (\<lambda>s. fmt 6 (pos s)) (lo # rest))"
  shows "foldl (\<lambda>cm (p, c). addColorStop p c cm)
           (EditableColormap (QColor_rgb (QColor_of_rgb (rgb lo)))
              (QColor_rgb (QColor_of_rgb (rgb (last (lo # rest))))))
           (map addColorStop_line (butlast rest)) =
         map saved_stop (lo # rest)"
proof -
  from assms(1) have ne: "rest \<noteq> []" and first: "pos lo = 0"
    by (auto simp add: valid_gradient_def)
  from assms(1) ne have final: "pos (last rest) = 1"
    by (simp add: valid_gradient_def)
  from ne have split: "rest = butlast rest @ [last rest]"
    by simp
  have init: "EditableColormap (QColor_rgb (QColor_of_rgb (rgb lo)))
              (QColor_rgb (QColor_of_rgb (rgb (last (lo # rest))))) =
        [saved_stop lo] @ [saved_stop (last rest)]"
    using ne first final
    by (simp add: EditableColormap_def saved_stop_def fmt_0 fmt_1)
  have "map pos ([saved_stop lo] @ map saved_stop (butlast rest) @ [saved_stop (last rest)]) =
        map (\<lambda>s. fmt 6 (pos s)) (lo # butlast rest @ [last rest])"
    by (simp add: pos_saved_stop comp_def)
  with assms(2) split
  have sorted': "sorted_wrt (<)
      (map pos ([saved_stop lo] @ map saved_stop (butlast rest) @ [saved_stop (last rest)]))"
    by simp
  have bounds: "\<forall>s \<in> set (map saved_stop (butlast rest)). 0 \<le> pos s \<and> pos s \<le> 1"
  proof
    fix s
    assume s: "s \<in> set (map saved_stop (butlast rest))"
    from sorted' s have "pos (saved_stop lo) < pos s" "pos s < pos (saved_stop (last rest))"
      by (auto simp add: sorted_wrt_append simp del: map_map)
    with first final show "0 \<le> pos s \<and> pos s \<le> 1"
      by (simp add: pos_saved_stop fmt_0 fmt_1)
  qed
  have "foldl (\<lambda>cm (p, c). addColorStop p c cm)
           ([saved_stop lo] @ [saved_stop (last rest)]) (map addColorStop_line (butlast rest)) =
        foldl (\<lambda>cm s. addColorStop (pos s) (rgb s) cm)
           ([saved_stop lo] @ [saved_stop (last rest)]) (map saved_stop (butlast rest))"
    by (rule foldl_addColorStop_written)
  also from foldl_addColorStop_sorted [OF sorted' bounds]
  have "\<dots> = [saved_stop lo] @ map saved_stop (butlast rest) @ [saved_stop (last rest)]" .
  also have "\<dots> = map saved_stop (lo # butlast rest @ [last rest])"
    by simp
  also from split have "\<dots> = map saved_stop (lo # rest)"
    by simp
  finally show ?thesis
    unfolding init .
qed

lemma saved_stop_six_decimals:
  assumes "\<forall>s \<in> set cm. fmt 6 (pos s) = pos s"
  shows "map saved_stop cm = map opaque_stop cm"
    and "map (\<lambda>s. fmt 6 (pos s)) cm = map pos cm"
  using assms by (simp_all add: saved_stop_def opaque_stop_def)

text \<open>
  Claim C1, as the code has it. \<^verbatim>\<open>save_colormap\<close> writes every stop position with six
  decimals (\<^verbatim>\<open>{stop.pos:.6f}\<close>), 512 samples taken at \<open>i / 511\<close>, and these 512
  positions with six decimals. For every valid gradient the save succeeds. If the stop
  positions rounded to six decimals are still strictly increasing, loading the saved file
  gives the gradient whose stops are the rounded positions with the same 8-bit colour
  channels (each colour under an opaque alpha). If every stop position is unchanged by the
  rounding, the loaded gradient has the same stop positions and colour channels as the one
  saved, and sampling it at the 512 positions \<open>i / 511\<close> gives exactly the rows stored in
  the file.
\<close>

theorem C1_roundtrip_six_decimal_positions:
  assumes "valid_gradient (colormap self)" "filename \<noteq> []"
  shows "\<exists>f. save_colormap self filename None = Inr (Some f) \<and>
     length (rgb_array_rows f) = 512 \<and>
     positions_rows f = map (\<lambda>i. fmt 6 (of_nat i / 511)) [0..<512] \<and>
     (sorted_wrt (<) (map (\<lambda>s. fmt 6 (pos s)) (colormap self)) \<longrightarrow>
        save_then_load self filename = Some (map saved_stop (colormap self))) \<and>
     ((\<forall>s \<in> set (colormap self). fmt 6 (pos s) = pos s) \<longrightarrow>
        save_then_load self filename = Some (map opaque_stop (colormap self)) \<and>
        map pos (map opaque_stop (colormap self)) = map pos (colormap self) \<and>
        map (\<lambda>s. QColor_of_rgb (rgb s)) (map opaque_stop (colormap self)) =
          map (\<lambda>s. QColor_of_rgb (rgb s)) (colormap self) \<and>
        map (\<lambda>i. map_option rgb_array_row
               (GradientSampler (map opaque_stop (colormap self)) (of_nat i / 511))) [0..<512] =
          map Some (rgb_array_rows f))"
proof -
  from assms(1) obtain lo rest where cm: "colormap self = lo # rest"
    by (cases "colormap self") (auto simp add: valid_gradient_def)
  note saved = save_colormap_written [OF cm assms(2)]
  note loaded = save_then_load_written [OF cm assms(2)]
  have rounded: "save_then_load self filename = Some (map saved_stop (colormap self))"
    if "sorted_wrt (<) (map (\<lambda>s. fmt 6 (pos s)) (colormap self))"
    using run_create_colormap_written [of lo rest] assms(1) that loaded
    by (simp add: cm)
  have exact: "save_then_load self filename = Some (map opaque_stop (colormap self))"
    if six: "\<forall>s \<in> set (colormap self). fmt 6 (pos s) = pos s"
  proof -
    from assms(1) have s: "sorted_wrt (<) (map pos (colormap self))"
      by (simp add: valid_gradient_def)
    have "sorted_wrt (<) (map (\<lambda>s. fmt 6 (pos s)) (colormap self))"
      unfolding saved_stop_six_decimals(2) [OF six] by (rule s)
    from rounded [OF this] show ?thesis
      unfolding saved_stop_six_decimals(1) [OF six] .
  qed
  have positions: "map pos (map opaque_stop (colormap self)) = map pos (colormap self)"
    by (rule map_pos_opaque_stop)
  have colours: "map (\<lambda>s. QColor_of_rgb (rgb s)) (map opaque_stop (colormap self)) =
       map (\<lambda>s. QColor_of_rgb (rgb s)) (colormap self)"
    by (simp add: channels_opaque_stop)
  have samples: "map (\<lambda>i. map_option rgb_array_row
            (GradientSampler (map opaque_stop (colormap self)) (of_nat i / 511))) [0..<512] =
       map Some (map (\<lambda>i. rgb_array_row (sample_from lo rest (max 0 (min 1 (of_nat i / 511)))))
         [0..<512])"
    unfolding cm
    by (simp add: GradientSampler_Cons rgb_array_row_opaque_stop del: upt.simps)
  from saved rounded exact positions colours samples show ?thesis
    by (simp add: positions_groups_512 del: upt.simps)
qed

theorem C1_roundtrip_six_decimal_positions_witness:
  "valid_gradient (colormap three_window) \<and>
   save_then_load three_window ''saved.py'' = Some three_stops \<and>
   valid_gradient (colormap fine_window) \<and>
   save_then_load fine_window ''fine.py'' =
     Some [\<lparr>pos = 0, rgb = black\<rparr>, \<lparr>pos = 977 / 1000000, rgb = 4294901760\<rparr>,
           \<lparr>pos = 1, rgb = white\<rparr>]"
proof -
  have v: "valid_gradient (colormap three_window)"
    by (simp add: three_window_def three_stops_def valid_gradient_def)
  have six: "\<forall>s \<in> set (colormap three_window). fmt 6 (pos s) = pos s"
    by (simp add: three_window_def three_stops_def fmt_def round_half_even_def Let_def)
  have same: "map opaque_stop (colormap three_window) = three_stops"
    by (simp add: three_window_def three_stops_def opaque_stop_def QColor_of_rgb_def
        QColor_rgb_def black_def white_def)
  have v': "valid_gradient (colormap fine_window)"
    by (simp add: fine_window_def valid_gradient_def)
  have r: "fmt 6 (1 / 1024) = 977 / 1000000"
    by (simp add: fmt_def round_half_even_def Let_def floor_numeral_div_rat)
  have sorted: "sorted_wrt (<) (map (\<lambda>s. fmt 6 (pos s)) (colormap fine_window))"
    by (simp add: fine_window_def fmt_0 fmt_1 r)
  have same': "map saved_stop (colormap fine_window) =
      [\<lparr>pos = 0, rgb = black\<rparr>, \<lparr>pos = 977 / 1000000, rgb = 4294901760\<rparr>, \<lparr>pos = 1, rgb = white\<rparr>]"
    by (simp add: fine_window_def saved_stop_def fmt_0 fmt_1 r QColor_of_rgb_def
        QColor_rgb_def black_def white_def)
  from C1_roundtrip_six_decimal_positions [OF v, of "''saved.py''"] six
  have "save_then_load three_window ''saved.py'' = Some three_stops"
    unfolding same by auto
  moreover from C1_roundtrip_six_decimal_positions [OF v', of "''fine.py''"] sorted
  have "save_then_load fine_window ''fine.py'' =
     Some [\<lparr>pos = 0, rgb = black\<rparr>, \<lparr>pos = 977 / 1000000, rgb = 4294901760\<rparr>,
           \<lparr>pos = 1, rgb = white\<rparr>]"
    unfolding same' by auto
  ultimately show ?thesis
    using v v' by (intro conjI)
qed

text \<open>
  Claim C1, as stated, fails on a position with more decimals: the valid gradient with an
  inner stop at 1/1024 comes back with that stop at 0.000977.
\<close>

theorem C1_roundtrip_rounds_positions:
  "valid_gradient (colormap fine_window) \<and>
   map pos (colormap fine_window) = [0, 1 / 1024, 1] \<and>
   map_option (map pos) (save_then_load fine_window ''fine.py'') = Some [0, 977 / 1000000, 1] \<and>
   map_option (map pos) (save_then_load fine_window ''fine.py'') \<noteq>
     Some (map pos (colormap fine_window))"
proof -
  have cm: "colormap fine_window =
      \<lparr>pos = 0, rgb = black\<rparr> # [\<lparr>pos = 1 / 1024, rgb = 4294901760\<rparr>, \<lparr>pos = 1, rgb = white\<rparr>]"
    by (simp add: fine_window_def)
  have v: "valid_gradient (colormap fine_window)"
    by (simp add: fine_window_def valid_gradient_def)
  have six: "fmt 6 (1 / 1024) = 977 / 1000000"
    by (simp add: fmt_def round_half_even_def Let_def floor_numeral_div_rat)
  from save_then_load_written [OF cm, of "''fine.py''"]
  have loaded: "map_option (map pos) (save_then_load fine_window ''fine.py'') =
      Some [0, 977 / 1000000, 1]"
    by (simp add: addColorStop_line_def six EditableColormap_def addColorStop_def)
  have original: "map pos (colormap fine_window) = [0, 1 / 1024, 1]"
    by (simp add: fine_window_def)
  have "Some [0, 977 / 1000000, 1] \<noteq> Some [0, 1 / 1024, 1 :: rat]"
    by simp
  then have "map_option (map pos) (save_then_load fine_window ''fine.py'') \<noteq>
     Some (map pos (colormap fine_window))"
    unfolding loaded original .
  with v loaded original show ?thesis
    by (intro conjI)
qed

text \<open>
  The positions stored in the file are the rounded ones, and sampling at a rounded position
  need not give the stored row: on the gradient black, white at 0.0048, black, row 161 is
  (175, 175, 175), its stored position is 0.315068, and the sample there is (176, 176, 176).
\<close>

lemma resample_at_written_position_differs:
  "\<exists>f. save_colormap narrow_window ''narrow.py'' None = Inr (Some f) \<and>
     rgb_array_rows f ! 161 = (175, 175, 175) \<and>
     positions_rows f ! 161 = 78767 / 250000 \<and>
     map_option rgb_array_row (GradientSampler (colormap narrow_window) (78767 / 250000)) =
       Some (176, 176, 176)"
proof -
  have cm: "colormap narrow_window =
      \<lparr>pos = 0, rgb = black\<rparr> # [\<lparr>pos = 3 / 625, rgb = white\<rparr>, \<lparr>pos = 1, rgb = black\<rparr>]"
    by (simp add: narrow_window_def)
  note saved = save_colormap_written [OF cm, of "''narrow.py''"]
  have row: "rgb_array_row (sample_from \<lparr>pos = 0, rgb = black\<rparr>
        [\<lparr>pos = 3 / 625, rgb = white\<rparr>, \<lparr>pos = 1, rgb = black\<rparr>] (max 0 (min 1 (161 / 511)))) =
      (175, 175, 175)"
    by (simp add: rgb_array_row_def interpolate_def QColor_of_rgb_def lerp_channel_def qRgb_def
        round_def Let_def black_def white_def floor_numeral_div_rat)
  have position: "fmt 6 (161 / 511) = 78767 / 250000"
    by (simp add: fmt_def round_half_even_def Let_def floor_numeral_div_rat)
  have again: "map_option rgb_array_row (GradientSampler (colormap narrow_window) (78767 / 250000)) =
       Some (176, 176, 176)"
    by (simp add: cm GradientSampler_Cons rgb_array_row_def interpolate_def QColor_of_rgb_def
        lerp_channel_def qRgb_def round_def Let_def black_def white_def floor_numeral_div_rat)
  from saved row position again show ?thesis
    by (simp add: positions_groups_512 del: upt.simps)
qed

end
